theory Spec2Isabelle
  imports Complex_Main
begin

section \<open>Values, exceptions and the process log\<close>

text \<open>
  A Python float is either NaN or a finite number. Finite floats are idealised as reals
  (rounding and the infinities are not modelled); what the strategy depends on is kept
  exactly: every ordered comparison with NaN is False.
\<close>

datatype pyfloat = NaN | Fin real

fun flt :: "pyfloat \<Rightarrow> pyfloat \<Rightarrow> bool" where
  "flt (Fin x) (Fin y) = (x < y)"
| "flt _ _ = False"

definition fgt :: "pyfloat \<Rightarrow> pyfloat \<Rightarrow> bool" where
  "fgt a b = flt b a"

text \<open>Arithmetic propagates NaN; a division by zero is merged into NaN as well.\<close>

fun fadd :: "pyfloat \<Rightarrow> pyfloat \<Rightarrow> pyfloat" where
  "fadd (Fin x) (Fin y) = Fin (x + y)"
| "fadd _ _ = NaN"

fun fsub :: "pyfloat \<Rightarrow> pyfloat \<Rightarrow> pyfloat" where
  "fsub (Fin x) (Fin y) = Fin (x - y)"
| "fsub _ _ = NaN"

fun fmul :: "pyfloat \<Rightarrow> pyfloat \<Rightarrow> pyfloat" where
  "fmul (Fin x) (Fin y) = Fin (x * y)"
| "fmul _ _ = NaN"

fun fdiv :: "pyfloat \<Rightarrow> pyfloat \<Rightarrow> pyfloat" where
  "fdiv (Fin x) (Fin y) = (if y = 0 then NaN else Fin (x / y))"
| "fdiv _ _ = NaN"

fun fabs :: "pyfloat \<Rightarrow> pyfloat" where
  "fabs (Fin x) = Fin \<bar>x\<bar>"
| "fabs NaN = NaN"

text \<open>The values of a series that are not NaN, in order.\<close>

fun fins :: "pyfloat list \<Rightarrow> real list" where
  "fins [] = []"
| "fins (NaN # xs) = fins xs"
| "fins (Fin x # xs) = x # fins xs"

text \<open>
  The exceptions that \<open>except Exception\<close> catches. \<open>ClientError\<close> stands for whatever the
  exchange client raises (API error, network error, malformed reply).
\<close>

datatype exn = IndexError | UnboundLocalError | ValueError | ClientError

text \<open>
  The process log, as far as the strategy writes to it: \<open>log_signal\<close>,
  \<open>log_trade_execution\<close> and the \<open>logging.error\<close> calls of the exception handlers.
\<close>

datatype event =
    Signal string string
  | Exec string string real string real
  | Error string

section \<open>utils.py: RiskManager\<close>

type_synonym date = int

record RiskManager =
  max_trades :: int
  stop_loss :: real
  take_profit :: real
  trades_today :: int
  last_trade_date :: "date option"

text \<open>\<open>RiskManager.__init__\<close>, the environment values given as parameters.\<close>

definition RiskManager_init :: "int \<Rightarrow> real \<Rightarrow> real \<Rightarrow> RiskManager" where
  "RiskManager_init m sl tp =
     \<lparr>max_trades = m, stop_loss = sl, take_profit = tp,
      trades_today = 0, last_trade_date = None\<rparr>"

text \<open>
  \<open>can_trade\<close>: the first argument is \<open>datetime.now().date()\<close>. It returns the answer and
  the updated object.
\<close>

definition can_trade :: "date \<Rightarrow> RiskManager \<Rightarrow> bool \<times> RiskManager" where
  "can_trade tday rm =
     (let rm1 = (if last_trade_date rm \<noteq> Some tday
                 then rm\<lparr>trades_today := 0, last_trade_date := Some tday\<rparr>
                 else rm)
      in if trades_today rm1 \<ge> max_trades rm1 then (False, rm1) else (True, rm1))"

definition update_trade_count :: "RiskManager \<Rightarrow> RiskManager" where
  "update_trade_count rm = rm\<lparr>trades_today := trades_today rm + 1\<rparr>"

section \<open>utils.py: DataProcessor\<close>

text \<open>
  A candle carries the five numeric columns of the data frame. Window sizes are natural
  numbers (pandas refuses a negative window; that is outside this model).
\<close>

record candle =
  k_open :: pyfloat
  k_high :: pyfloat
  k_low :: pyfloat
  k_close :: pyfloat
  k_volume :: pyfloat

text \<open>\<open>clean_data\<close>: \<open>dropna\<close> removes every row that has a NaN.\<close>

definition has_nan :: "candle \<Rightarrow> bool" where
  "has_nan c = (k_open c = NaN \<or> k_high c = NaN \<or> k_low c = NaN \<or> k_close c = NaN
                \<or> k_volume c = NaN)"

definition clean_data :: "candle list \<Rightarrow> candle list" where
  "clean_data df = filter (\<lambda>c. \<not> has_nan c) df"

text \<open>
  The pandas operations the indicators are built from. \<open>rolling w agg\<close> is
  \<open>Series.rolling(window=w)\<close> followed by an aggregate: position \<open>i\<close> looks at the last
  \<open>w\<close> values up to \<open>i\<close> and is NaN unless \<open>w\<close> of them are present and not NaN
  (\<open>min_periods\<close> defaults to the window).
\<close>

definition mean_agg :: "real list \<Rightarrow> pyfloat" where
  "mean_agg rs = (if rs = [] then NaN else Fin (sum_list rs / real (length rs)))"

definition std_agg :: "real list \<Rightarrow> pyfloat" where
  "std_agg rs =
     (if length rs < 2 then NaN
      else let m = sum_list rs / real (length rs)
           in Fin (sqrt (sum_list (map (\<lambda>x. (x - m) ^ 2) rs) / real (length rs - 1))))"

definition rolling :: "nat \<Rightarrow> (real list \<Rightarrow> pyfloat) \<Rightarrow> pyfloat list \<Rightarrow> pyfloat list" where
  "rolling w agg xs =
     map (\<lambda>i. let win = drop (i + 1 - w) (take (i + 1) xs)
               in if length (fins win) < w then NaN else agg (fins win))
         [0..<length xs]"

definition pct_change :: "pyfloat list \<Rightarrow> pyfloat list" where
  "pct_change xs =
     (case xs of [] \<Rightarrow> []
      | x # rest \<Rightarrow> NaN # map2 (\<lambda>prev cur. fsub (fdiv cur prev) (Fin 1)) xs rest)"

definition shift :: "pyfloat list \<Rightarrow> pyfloat list" where
  "shift xs = (case xs of [] \<Rightarrow> [] | x # rest \<Rightarrow> NaN # butlast xs)"

text \<open>\<open>np.max(ranges, axis=1)\<close> on a data frame: the row maximum, NaN skipped.\<close>

definition row_max :: "pyfloat list \<Rightarrow> pyfloat" where
  "row_max xs = (case fins xs of [] \<Rightarrow> NaN | r # rs \<Rightarrow> Fin (fold max rs r))"

text \<open>
  \<open>df['col'].mean()\<close>: the mean of the values that are not NaN. It is the exact mean
  here; the float mean of the code can differ from it by rounding.
\<close>

definition series_mean :: "pyfloat list \<Rightarrow> pyfloat" where
  "series_mean xs = mean_agg (fins xs)"

definition calculate_volatility :: "candle list \<Rightarrow> nat \<Rightarrow> pyfloat list" where
  "calculate_volatility df window =
     (let returns = pct_change (map k_close df)
      in rolling window std_agg returns)"

definition calculate_bollinger_bands ::
  "candle list \<Rightarrow> nat \<Rightarrow> real \<Rightarrow> pyfloat list \<times> pyfloat list \<times> pyfloat list" where
  "calculate_bollinger_bands df window num_std =
     (let middle_band = rolling window mean_agg (map k_close df);
          std = rolling window std_agg (map k_close df);
          upper_band = map2 (\<lambda>m s. fadd m (fmul s (Fin num_std))) middle_band std;
          lower_band = map2 (\<lambda>m s. fsub m (fmul s (Fin num_std))) middle_band std
      in (upper_band, middle_band, lower_band))"

definition calculate_keltner_channels ::
  "candle list \<Rightarrow> nat \<Rightarrow> real \<Rightarrow> pyfloat list \<times> pyfloat list \<times> pyfloat list" where
  "calculate_keltner_channels df window atr_mult =
     (let high_low = map (\<lambda>c. fsub (k_high c) (k_low c)) df;
          high_close = map2 (\<lambda>c pc. fabs (fsub (k_high c) pc)) df (shift (map k_close df));
          low_close = map2 (\<lambda>c pc. fabs (fsub (k_low c) pc)) df (shift (map k_close df));
          true_range = map (\<lambda>(a, b, c). row_max [a, b, c])
                           (zip high_low (zip high_close low_close));
          atr = rolling window mean_agg true_range;
          middle_line = rolling window mean_agg (map k_close df);
          upper_line = map2 (\<lambda>m a. fadd m (fmul a (Fin atr_mult))) middle_line atr;
          lower_line = map2 (\<lambda>m a. fsub m (fmul a (Fin atr_mult))) middle_line atr
      in (upper_line, middle_line, lower_line))"

section \<open>utils.py: TradeLogger\<close>

text \<open>
  The CSV file is a list of lines, each a list of cells; \<open>None\<close> is a file that does not
  exist. Cells are kept structured (the textual encoding of a cell is not modelled); the
  empty cell is what \<open>None\<close> is written as and what is read back as a null.
\<close>

datatype cell = CTime int | CStr string | CNum real | CEmpty

type_synonym csv_file = "cell list list option"

definition ensure_log_file_exists :: "csv_file \<Rightarrow> csv_file" where
  "ensure_log_file_exists f =
     (case f of
        None \<Rightarrow> Some [map CStr [''timestamp'', ''symbol'', ''side'', ''quantity'',
                                ''price'', ''pnl'', ''strategy'']]
      | Some ls \<Rightarrow> Some ls)"

definition TradeLogger_init :: "csv_file \<Rightarrow> csv_file" where
  "TradeLogger_init f = ensure_log_file_exists f"

text \<open>
  \<open>log_trade\<close>: one row, the cells in the order of the keys of \<open>trade_data\<close>, appended
  without a header (mode \<open>'a'\<close> creates a missing file).
\<close>

definition pnl_cell :: "real option \<Rightarrow> cell" where
  "pnl_cell p = (case p of None \<Rightarrow> CEmpty | Some v \<Rightarrow> CNum v)"

definition log_trade ::
  "int \<Rightarrow> string \<Rightarrow> string \<Rightarrow> real \<Rightarrow> real \<Rightarrow> string \<Rightarrow> real option \<Rightarrow> csv_file \<Rightarrow> csv_file" where
  "log_trade tstamp smb side qty price strategy pnl f =
     (let row = [CTime tstamp, CStr smb, CStr side, CNum qty, CNum price,
                 CStr strategy, pnl_cell pnl]
      in case f of None \<Rightarrow> Some [row] | Some ls \<Rightarrow> Some (ls @ [row]))"

text \<open>
  \<open>pd.read_csv\<close>: the first line names the columns, every later line is a record whose
  cells are matched to the names by position. A missing or empty file raises.
\<close>

type_synonym record_row = "(string \<times> cell) list"

fun column_name :: "cell \<Rightarrow> string" where
  "column_name (CStr s) = s"
| "column_name _ = []"

definition read_csv :: "csv_file \<Rightarrow> record_row list option" where
  "read_csv f =
     (case f of
        None \<Rightarrow> None
      | Some [] \<Rightarrow> None
      | Some (h # ls) \<Rightarrow> Some (map (\<lambda>l. zip (map column_name h) l) ls))"

text \<open>
  \<open>df['timestamp']\<close> raises \<open>KeyError\<close> when the first line of the file names no such
  column (a file that \<open>log_trade\<close> itself created has a trade as its first line).
\<close>

definition has_timestamp_column :: "csv_file \<Rightarrow> bool" where
  "has_timestamp_column f =
     (case f of
        None \<Rightarrow> False
      | Some [] \<Rightarrow> False
      | Some (h # ls) \<Rightarrow> ''timestamp'' \<in> set (map column_name h))"

text \<open>
  \<open>pd.to_datetime\<close> on one cell: a time is kept, a number counts nanoseconds, an empty
  cell is no time, and text that is not a time raises. Times are seconds.
\<close>

fun to_datetime :: "cell \<Rightarrow> exn + int option" where
  "to_datetime (CTime t) = Inr (Some t)"
| "to_datetime (CNum r) = Inr (Some \<lfloor>r / 1000000000\<rfloor>)"
| "to_datetime CEmpty = Inr None"
| "to_datetime (CStr s) = Inl ValueError"

definition timestamp_cell :: "record_row \<Rightarrow> cell" where
  "timestamp_cell r = (case map_of r ''timestamp'' of None \<Rightarrow> CEmpty | Some c \<Rightarrow> c)"

fun timestamp_ge :: "record_row \<Rightarrow> int \<Rightarrow> bool" where
  "timestamp_ge r cutoff =
     (case to_datetime (timestamp_cell r) of Inr (Some t) \<Rightarrow> t \<ge> cutoff | _ \<Rightarrow> False)"

text \<open>
  \<open>get_trade_history\<close>: whatever raises inside is caught and \<open>None\<close> is returned;
  \<open>timedelta(days=days)\<close> is \<open>days * 86400\<close>.
\<close>

definition get_trade_history :: "int \<Rightarrow> int \<Rightarrow> csv_file \<Rightarrow> record_row list option" where
  "get_trade_history days tnow f =
     (case read_csv f of
        None \<Rightarrow> None
      | Some rs \<Rightarrow>
          if \<not> has_timestamp_column f then None
          else if list_ex (\<lambda>r. isl (to_datetime (timestamp_cell r))) rs then None
          else Some (filter (\<lambda>r. timestamp_ge r (tnow - days * 86400)) rs))"

section \<open>binance_trader.py: BinanceTrader\<close>

datatype order = Order nat

record BinanceTrader =
  symbol :: string
  quantity :: real
  bb_window :: nat
  bb_std :: real
  keltner_window :: nat
  keltner_atr_mult :: real
  adx_threshold :: real
  risk_manager :: RiskManager
  trade_logger :: csv_file
  log_out :: "event list"

text \<open>
  What the outside world answers during one call of \<open>execute_trade\<close>: the date and time
  read from the clock, the outcome of lines 172-173 (fetching the ticker and converting
  its price) and the outcome of \<open>create_order\<close>.
\<close>

record exchange =
  today :: date
  clock :: int
  ticker :: "exn + real"
  create_order :: "exn + order"

definition log_signal :: "string \<Rightarrow> string \<Rightarrow> BinanceTrader \<Rightarrow> BinanceTrader" where
  "log_signal signal_type reason tr =
     (if signal_type = ''BUY'' then tr\<lparr>log_out := log_out tr @ [Signal ''BUY'' reason]\<rparr>
      else if signal_type = ''SELL'' then tr\<lparr>log_out := log_out tr @ [Signal ''SELL'' reason]\<rparr>
      else if signal_type = ''HOLD'' then tr\<lparr>log_out := log_out tr @ [Signal ''HOLD'' reason]\<rparr>
      else tr)"

definition log_trade_execution ::
  "string \<Rightarrow> real \<Rightarrow> real \<Rightarrow> string \<Rightarrow> BinanceTrader \<Rightarrow> BinanceTrader" where
  "log_trade_execution side qty price status tr =
     (let status_symbol =
            (if status = ''PENDING'' then ''[PENDING]''
             else if status = ''SUCCESS'' then ''[SUCCESS]''
             else ''[FAILED]'')
      in tr\<lparr>log_out := log_out tr @ [Exec status_symbol side qty (symbol tr) price]\<rparr>)"

text \<open>
  The \<open>try\<close> block of \<open>execute_trade\<close>. Besides the outcome and the trader it returns the
  local variable \<open>current_price\<close>, \<open>None\<close> while it is unbound.
\<close>

definition execute_trade_try ::
  "exchange \<Rightarrow> string \<Rightarrow> string \<Rightarrow> real \<Rightarrow> string \<Rightarrow> BinanceTrader
     \<Rightarrow> (exn + order option) \<times> real option \<times> BinanceTrader" where
  "execute_trade_try ex smb side qty strategy tr =
     (let (ok, rm) = can_trade (today ex) (risk_manager tr);
          tr1 = tr\<lparr>risk_manager := rm\<rparr>
      in if \<not> ok then (Inr None, None, log_signal ''HOLD'' ''Daily trade limit reached'' tr1)
         else case ticker ex of
           Inl e \<Rightarrow> (Inl e, None, tr1)
         | Inr current_price \<Rightarrow>
             (let tr2 = log_trade_execution side qty current_price ''PENDING'' tr1
              in case create_order ex of
                   Inl e \<Rightarrow> (Inl e, Some current_price, tr2)
                 | Inr od \<Rightarrow>
                     (let tr3 = tr2\<lparr>risk_manager := update_trade_count (risk_manager tr2)\<rparr>;
                          tr4 = tr3\<lparr>trade_logger :=
                                  log_trade (clock ex) smb side qty current_price strategy None
                                    (trade_logger tr3)\<rparr>;
                          tr5 = log_trade_execution side qty current_price ''SUCCESS'' tr4
                      in (Inr (Some od), Some current_price, tr5))))"

text \<open>
  \<open>execute_trade\<close> with its handler: the handler reads \<open>current_price\<close> first, which
  raises \<open>UnboundLocalError\<close> out of the function when the variable was never assigned.
\<close>

definition execute_trade ::
  "exchange \<Rightarrow> string \<Rightarrow> string \<Rightarrow> real \<Rightarrow> string \<Rightarrow> BinanceTrader
     \<Rightarrow> (exn + order option) \<times> BinanceTrader" where
  "execute_trade ex smb side qty strategy tr =
     (case execute_trade_try ex smb side qty strategy tr of
        (Inr r, _, tr') \<Rightarrow> (Inr r, tr')
      | (Inl e, None, tr') \<Rightarrow> (Inl UnboundLocalError, tr')
      | (Inl e, Some current_price, tr') \<Rightarrow>
          (Inr None,
           (log_trade_execution side qty current_price ''FAILED'' tr')
             \<lparr>log_out := log_out (log_trade_execution side qty current_price ''FAILED'' tr')
                          @ [Error ''Error executing trade'']\<rparr>))"

section \<open>binance\_trader.py: the indicator table and the strategy\<close>

text \<open>
  A row of the data frame returned by \<open>get_historical_klines\<close>, with the columns the
  strategy reads.
\<close>

record row =
  r_close :: pyfloat
  volatility :: pyfloat
  upper_bb :: pyfloat
  middle_bb :: pyfloat
  lower_bb :: pyfloat
  upper_kc :: pyfloat
  middle_kc :: pyfloat
  lower_kc :: pyfloat
  adx :: pyfloat
  rsi :: pyfloat
  macd :: pyfloat
  signal :: pyfloat
  squeeze :: bool

text \<open>
  What the outside world answers during \<open>get_historical_klines\<close>: the outcome of fetching
  the klines and converting them to floats, and the columns TA-Lib computes from the
  cleaned series (ADX, RSI, MACD and its signal line), taken as given.
\<close>

record market =
  klines :: "exn + candle list"
  ta_adx :: "pyfloat list"
  ta_rsi :: "pyfloat list"
  ta_macd :: "pyfloat list"
  ta_signal :: "pyfloat list"

text \<open>Assigning a column aligns it on the index: a missing entry is NaN.\<close>

definition col_at :: "pyfloat list \<Rightarrow> nat \<Rightarrow> pyfloat" where
  "col_at col i = (if i < length col then col ! i else NaN)"

definition get_historical_klines ::
  "market \<Rightarrow> BinanceTrader \<Rightarrow> row list option \<times> BinanceTrader" where
  "get_historical_klines mk tr =
     (case klines mk of
        Inl e \<Rightarrow> (None, tr\<lparr>log_out := log_out tr @ [Error ''Error fetching historical data'']\<rparr>)
      | Inr raw \<Rightarrow>
          (let df = clean_data raw;
               vol = calculate_volatility df 20;
               (ubb, mbb, lbb) = calculate_bollinger_bands df (bb_window tr) (bb_std tr);
               (ukc, mkc, lkc) =
                 calculate_keltner_channels df (keltner_window tr) (keltner_atr_mult tr)
           in (Some (map (\<lambda>i.
                  \<lparr>r_close = k_close (df ! i), volatility = col_at vol i,
                   upper_bb = col_at ubb i, middle_bb = col_at mbb i, lower_bb = col_at lbb i,
                   upper_kc = col_at ukc i, middle_kc = col_at mkc i, lower_kc = col_at lkc i,
                   adx = col_at (ta_adx mk) i, rsi = col_at (ta_rsi mk) i,
                   macd = col_at (ta_macd mk) i, signal = col_at (ta_signal mk) i,
                   squeeze = (flt (col_at ubb i) (col_at ukc i) \<and> fgt (col_at lbb i) (col_at lkc i))\<rparr>)
                [0..<length df]), tr)))"

text \<open>\<open>df.iloc[i]\<close>: a negative position counts from the end; out of range raises.\<close>

definition iloc :: "'a list \<Rightarrow> int \<Rightarrow> exn + 'a" where
  "iloc df i =
     (if 0 \<le> i \<and> i < int (length df) then Inr (df ! nat i)
      else if i < 0 \<and> - int (length df) \<le> i then Inr (df ! nat (int (length df) + i))
      else Inl IndexError)"

text \<open>
  Lines 230-236 of \<open>run_strategy\<close>: the Bollinger Band squeeze block. Its result is the
  outcome of the \<open>execute_trade\<close> call it makes, if any.
\<close>

definition squeeze_block ::
  "exchange \<Rightarrow> row \<Rightarrow> row \<Rightarrow> BinanceTrader \<Rightarrow> (exn + unit) \<times> BinanceTrader" where
  "squeeze_block ex previous current tr =
     (let squeeze_now = squeeze current; squeeze_prev = squeeze previous
      in if squeeze_prev \<and> \<not> squeeze_now \<and> fgt (adx current) (Fin (adx_threshold tr)) then
           if fgt (r_close current) (upper_bb current) then
             (case execute_trade ex (symbol tr) ''BUY'' (quantity tr) ''BB_SQUEEZE''
                     (log_signal ''BUY'' ''Upward breakout from BB squeeze'' tr) of
                (Inl e, tr') \<Rightarrow> (Inl e, tr') | (Inr r, tr') \<Rightarrow> (Inr (), tr'))
           else if flt (r_close current) (lower_bb current) then
             (case execute_trade ex (symbol tr) ''SELL'' (quantity tr) ''BB_SQUEEZE''
                     (log_signal ''SELL'' ''Downward breakout from BB squeeze'' tr) of
                (Inl e, tr') \<Rightarrow> (Inl e, tr') | (Inr r, tr') \<Rightarrow> (Inr (), tr'))
           else (Inr (), tr)
         else (Inr (), tr))"

text \<open>Lines 239-248: the RSI + MACD block.\<close>

definition momentum_block ::
  "exchange \<Rightarrow> row list \<Rightarrow> row \<Rightarrow> BinanceTrader \<Rightarrow> (exn + unit) \<times> BinanceTrader" where
  "momentum_block ex df current tr =
     (if flt (rsi current) (Fin 30) \<and> fgt (macd current) (signal current) \<and>
         flt (volatility current) (series_mean (map volatility df)) then
        (case execute_trade ex (symbol tr) ''BUY'' (quantity tr) ''RSI_MACD''
                (log_signal ''BUY'' ''RSI oversold with MACD confirmation'' tr) of
           (Inl e, tr') \<Rightarrow> (Inl e, tr') | (Inr r, tr') \<Rightarrow> (Inr (), tr'))
      else if fgt (rsi current) (Fin 70) \<and> flt (macd current) (signal current) \<and>
              flt (volatility current) (series_mean (map volatility df)) then
        (case execute_trade ex (symbol tr) ''SELL'' (quantity tr) ''RSI_MACD''
                (log_signal ''SELL'' ''RSI overbought with MACD confirmation'' tr) of
           (Inl e, tr') \<Rightarrow> (Inl e, tr') | (Inr r, tr') \<Rightarrow> (Inr (), tr'))
      else (Inr (), log_signal ''HOLD'' ''No clear signals'' tr))"

text \<open>
  The \<open>try\<close> block of \<open>run_strategy\<close> from line 201 on, given the data frame; \<open>ex1\<close> and
  \<open>ex2\<close> are the answers of the outside world to the first and to the second block. The
  lines that only print the market conditions are left out.
\<close>

definition run_strategy_try ::
  "exchange \<Rightarrow> exchange \<Rightarrow> row list option \<Rightarrow> BinanceTrader \<Rightarrow> (exn + unit) \<times> BinanceTrader" where
  "run_strategy_try ex1 ex2 dfo tr =
     (case dfo of
        None \<Rightarrow> (Inr (), tr\<lparr>log_out := log_out tr @ [Error ''Failed to get historical data'']\<rparr>)
      | Some df \<Rightarrow>
          (case iloc df (- 1) of
             Inl e \<Rightarrow> (Inl e, tr)
           | Inr current \<Rightarrow>
               (case iloc df (- 2) of
                  Inl e \<Rightarrow> (Inl e, tr)
                | Inr previous \<Rightarrow>
                    (case squeeze_block ex1 previous current tr of
                       (Inl e, tr1) \<Rightarrow> (Inl e, tr1)
                     | (Inr u, tr1) \<Rightarrow> momentum_block ex2 df current tr1))))"

text \<open>
  \<open>run_strategy\<close> on a given data frame, with its blanket handler: whatever the \<open>try\<close>
  block raises is logged and swallowed.
\<close>

definition run_strategy_df ::
  "exchange \<Rightarrow> exchange \<Rightarrow> row list option \<Rightarrow> BinanceTrader \<Rightarrow> BinanceTrader" where
  "run_strategy_df ex1 ex2 dfo tr =
     (case run_strategy_try ex1 ex2 dfo tr of
        (Inr u, tr') \<Rightarrow> tr'
      | (Inl e, tr') \<Rightarrow>
          tr'\<lparr>log_out := log_out tr' @ [Error ''Error in strategy execution'',
                                         Error ''Error details'']\<rparr>)"

definition run_strategy ::
  "market \<Rightarrow> exchange \<Rightarrow> exchange \<Rightarrow> BinanceTrader \<Rightarrow> BinanceTrader" where
  "run_strategy mk ex1 ex2 tr =
     (case get_historical_klines mk tr of (dfo, tr0) \<Rightarrow> run_strategy_df ex1 ex2 dfo tr0)"

section \<open>binance\_trader.py: main\<close>




section \<open>Derived notions used by the properties\<close>

text \<open>
  The lazy daily reset in the words of the specification: if the stored date differs from
  today, the counter becomes 0 and the stored date becomes today.
\<close>

definition lazy_daily_reset :: "date \<Rightarrow> RiskManager \<Rightarrow> RiskManager" where
  "lazy_daily_reset tday rm =
     (if last_trade_date rm = Some tday then rm
      else rm\<lparr>trades_today := 0, last_trade_date := Some tday\<rparr>)"

text \<open>
  \<open>n\<close> rounds on one day, each a call of \<open>can_trade\<close> followed, when it allowed the trade,
  by \<open>update_trade_count\<close> (the way \<open>execute_trade\<close> pairs the two).
\<close>

primrec trade_rounds :: "nat \<Rightarrow> date \<Rightarrow> RiskManager \<Rightarrow> RiskManager" where
  "trade_rounds 0 d rm = rm"
| "trade_rounds (Suc n) d rm =
     (let (ok, rm1) = can_trade d (trade_rounds n d rm)
      in if ok then update_trade_count rm1 else rm1)"

text \<open>\<open>n\<close> calls of \<open>can_trade\<close> alone on one day: the answer of the last call.\<close>

primrec can_trade_calls :: "nat \<Rightarrow> date \<Rightarrow> RiskManager \<Rightarrow> bool \<times> RiskManager" where
  "can_trade_calls 0 d rm = (True, rm)"
| "can_trade_calls (Suc n) d rm = can_trade d (snd (can_trade_calls n d rm))"

text \<open>
  A sequence of \<open>execute_trade\<close> invocations within one process: each with its own
  arguments and its own answers of the outside world. An invocation that raises leaves
  the trader as the raise left it.
\<close>

type_synonym invocation = "exchange \<times> string \<times> string \<times> real \<times> string"

fun execute_trades :: "invocation list \<Rightarrow> BinanceTrader \<Rightarrow> BinanceTrader" where
  "execute_trades [] tr = tr"
| "execute_trades ((ex, smb, side, qty, strategy) # cs) tr =
     execute_trades cs (snd (execute_trade ex smb side qty strategy tr))"

definition within_limit :: "RiskManager \<Rightarrow> bool" where
  "within_limit rm = (0 \<le> trades_today rm \<and> trades_today rm \<le> max_trades rm)"





section \<open>Concrete inputs\<close>

definition example_trader :: BinanceTrader where
  "example_trader =
     \<lparr>symbol = ''BTCUSDT'', quantity = 1, bb_window = 20, bb_std = 2,
      keltner_window = 20, keltner_atr_mult = 1.5, adx_threshold = 25,
      risk_manager = RiskManager_init 2 2 3, trade_logger = TradeLogger_init None,
      log_out = []\<rparr>"

definition example_exchange :: exchange where
  "example_exchange =
     \<lparr>today = 10, clock = 1000, ticker = Inr 50000, create_order = Inr (Order 1)\<rparr>"

definition example_call :: invocation where
  "example_call = (example_exchange, ''BTCUSDT'', ''BUY'', 1, ''RSI_MACD'')"

definition failing_order_exchange :: exchange where
  "failing_order_exchange =
     \<lparr>today = 10, clock = 1000, ticker = Inr 50000, create_order = Inl ClientError\<rparr>"

text \<open>The day after: an order that is accepted, and one that is refused.\<close>

definition next_day_exchange :: exchange where
  "next_day_exchange =
     \<lparr>today = 11, clock = 87400, ticker = Inr 50000, create_order = Inr (Order 3)\<rparr>"

definition next_day_failing_exchange :: exchange where
  "next_day_failing_exchange =
     \<lparr>today = 11, clock = 87400, ticker = Inr 50000, create_order = Inl ClientError\<rparr>"

definition failing_ticker_exchange :: exchange where
  "failing_ticker_exchange =
     \<lparr>today = 10, clock = 1000, ticker = Inl ClientError, create_order = Inr (Order 1)\<rparr>"


definition breakout_row :: row where
  "breakout_row =
     \<lparr>r_close = Fin 105, volatility = Fin 0.01,
      upper_bb = Fin 104, middle_bb = Fin 100, lower_bb = Fin 96,
      upper_kc = Fin 103, middle_kc = Fin 100, lower_kc = Fin 97,
      adx = Fin 30, rsi = Fin 25, macd = Fin 1, signal = Fin 0.5, squeeze = False\<rparr>"

text \<open>Three candles, far fewer than any window, with the TA-Lib columns all NaN.\<close>

definition example_candle :: "real \<Rightarrow> candle" where
  "example_candle c =
     \<lparr>k_open = Fin c, k_high = Fin (c + 1), k_low = Fin (c - 1), k_close = Fin c,
      k_volume = Fin 10\<rparr>"

definition short_market :: market where
  "short_market =
     \<lparr>klines = Inr [example_candle 100, example_candle 101, example_candle 102],
      ta_adx = [NaN, NaN, NaN], ta_rsi = [NaN, NaN, NaN],
      ta_macd = [NaN, NaN, NaN], ta_signal = [NaN, NaN, NaN]\<rparr>"

section \<open>Properties of RiskManager\<close>

lemma can_trade_same_day:
  "last_trade_date rm = Some d \<Longrightarrow>
   can_trade d rm = (trades_today rm < max_trades rm, rm)"
  by (simp add: can_trade_def Let_def not_le)

lemma can_trade_max_trades [simp]: "max_trades (snd (can_trade d rm)) = max_trades rm"
  by (simp add: can_trade_def Let_def)

lemma can_trade_date [simp]: "last_trade_date (snd (can_trade d rm)) = Some d"
  by (simp add: can_trade_def Let_def)

lemma can_trade_within_limit:
  "0 \<le> max_trades rm \<Longrightarrow> within_limit rm \<Longrightarrow> within_limit (snd (can_trade d rm))"
  by (simp add: can_trade_def Let_def within_limit_def)

lemma can_trade_then_update:
  "fst (can_trade d rm) \<Longrightarrow>
   trades_today (update_trade_count (snd (can_trade d rm))) \<le> max_trades rm"
  by (simp add: can_trade_def Let_def update_trade_count_def split: if_splits)

text \<open>
  C7. \<open>can_trade\<close> first performs the lazy daily reset and then answers whether the
  counter is below \<open>max_trades\<close>; the reset object is the one it leaves behind.
\<close>

theorem can_trade_lazy_reset:
  "can_trade tday rm =
     (trades_today (lazy_daily_reset tday rm) < max_trades (lazy_daily_reset tday rm),
      lazy_daily_reset tday rm)"
  by (simp add: can_trade_def lazy_daily_reset_def Let_def not_le)

lemma trade_rounds_max [simp]: "max_trades (trade_rounds n d rm) = max_trades rm"
  by (induction n) (simp_all add: Let_def update_trade_count_def split: prod.splits,
      metis can_trade_max_trades snd_conv)

lemma trade_rounds_date: "0 < n \<Longrightarrow> last_trade_date (trade_rounds n d rm) = Some d"
  by (cases n) (auto simp: Let_def update_trade_count_def split: prod.splits,
      (metis can_trade_date snd_conv)+)

lemma trade_rounds_count:
  "0 \<le> trades_today rm \<Longrightarrow>
   0 \<le> trades_today (trade_rounds n d rm) \<and>
   min (max_trades rm) (int n) \<le> trades_today (trade_rounds n d rm)"
proof (induction n)
  case 0
  then show ?case by simp
next
  case (Suc n)
  let ?s = "trade_rounds n d rm"
  have m: "max_trades ?s = max_trades rm" by simp
  show ?case
  proof (cases "n = 0")
    case True
    with Suc.prems show ?thesis
      by (auto simp: can_trade_def Let_def update_trade_count_def)
  next
    case False
    then have "last_trade_date ?s = Some d" by (simp add: trade_rounds_date)
    then have ct: "can_trade d ?s = (trades_today ?s < max_trades ?s, ?s)"
      by (rule can_trade_same_day)
    from Suc.IH [OF Suc.prems] show ?thesis
      by (auto simp: ct m update_trade_count_def)
  qed
qed

text \<open>
  C4, as amended. On one day, when each call of \<open>can_trade\<close> is followed by
  \<open>update_trade_count\<close> if it allowed the trade, the call after \<open>max_trades\<close> such rounds
  returns False; the next call on a different day returns True again.
\<close>

theorem can_trade_daily_limit:
  assumes "0 \<le> trades_today rm" and "0 < max_trades rm" and "d' \<noteq> d"
  shows "\<not> fst (can_trade d (trade_rounds (nat (max_trades rm)) d rm)) \<and>
         fst (can_trade d' (snd (can_trade d (trade_rounds (nat (max_trades rm)) d rm))))"
proof -
  let ?n = "nat (max_trades rm)"
  let ?s = "trade_rounds ?n d rm"
  from assms have n: "0 < ?n" by simp
  then have dt: "last_trade_date ?s = Some d" by (rule trade_rounds_date)
  have "max_trades rm \<le> trades_today ?s"
    using trade_rounds_count [OF assms(1), of ?n d] assms(2) by simp
  then have a: "can_trade d ?s = (False, ?s)"
    by (simp add: can_trade_same_day [OF dt])
  have b: "fst (can_trade d' ?s)"
    using assms dt by (simp add: can_trade_def Let_def)
  from a b show ?thesis by simp
qed

lemma can_trade_calls_fresh:
  assumes "0 < max_trades rm" and "trades_today rm = 0"
  shows "can_trade_calls (Suc n) d rm = (True, rm\<lparr>last_trade_date := Some d\<rparr>)"
proof (induction n)
  case 0
  from assms show ?case by (simp add: can_trade_def Let_def)
next
  case (Suc n)
  have "can_trade_calls (Suc (Suc n)) d rm = can_trade d (snd (can_trade_calls (Suc n) d rm))"
    by simp
  also have "\<dots> = can_trade d (rm\<lparr>last_trade_date := Some d\<rparr>)"
    by (simp only: Suc.IH snd_conv)
  also from assms have "\<dots> = (True, rm\<lparr>last_trade_date := Some d\<rparr>)"
    by (simp add: can_trade_def Let_def)
  finally show ?case .
qed

text \<open>
  C4, as stated, fails: \<open>can_trade\<close> does not count its own calls. With a limit of 5, the
  sixth call on the same day still returns True when no trade was recorded in between.
\<close>

theorem can_trade_alone_never_refuses:
  "max_trades (RiskManager_init 5 2 3) + 1 = 6 \<and>
   fst (can_trade_calls 6 0 (RiskManager_init 5 2 3))"
proof -
  have "(6::nat) = Suc 5" by simp
  moreover have "can_trade_calls (Suc 5) 0 (RiskManager_init 5 2 3) =
      (True, (RiskManager_init 5 2 3)\<lparr>last_trade_date := Some 0\<rparr>)"
    by (rule can_trade_calls_fresh) (simp_all add: RiskManager_init_def)
  ultimately show ?thesis by (simp add: RiskManager_init_def)
qed

theorem can_trade_daily_limit_witness:
  "0 \<le> trades_today (RiskManager_init 2 2 3) \<and> 0 < max_trades (RiskManager_init 2 2 3) \<and>
   (11::int) \<noteq> 10 \<and>
   \<not> fst (can_trade 10 (trade_rounds 2 10 (RiskManager_init 2 2 3))) \<and>
   fst (can_trade 11 (snd (can_trade 10 (trade_rounds 2 10 (RiskManager_init 2 2 3)))))"
  using can_trade_daily_limit [of "RiskManager_init 2 2 3" 11 10]
  by (simp add: RiskManager_init_def)

section \<open>Properties of execute\_trade\<close>

lemma can_trade_snd: "snd (can_trade d rm) = lazy_daily_reset d rm"
  by (simp add: can_trade_def lazy_daily_reset_def Let_def)

lemma execute_trade_within_limit:
  assumes "0 \<le> max_trades (risk_manager tr)" and "within_limit (risk_manager tr)"
  shows "within_limit (risk_manager (snd (execute_trade ex smb side qty strategy tr))) \<and>
         max_trades (risk_manager (snd (execute_trade ex smb side qty strategy tr))) =
           max_trades (risk_manager tr)"
proof (cases "can_trade (today ex) (risk_manager tr)")
  case (Pair ok rm)
  then have rm: "rm = snd (can_trade (today ex) (risk_manager tr))"
    and ok: "ok = fst (can_trade (today ex) (risk_manager tr))" by simp_all
  have w: "within_limit rm" unfolding rm using assms by (rule can_trade_within_limit)
  have m: "max_trades rm = max_trades (risk_manager tr)" by (simp add: rm)
  have u: "ok \<Longrightarrow> trades_today rm < max_trades rm"
    using Pair by (auto simp: can_trade_def Let_def split: if_splits)
  show ?thesis
    using w m u
    by (auto simp: execute_trade_def execute_trade_try_def Pair log_signal_def
        log_trade_execution_def update_trade_count_def within_limit_def Let_def
        split: sum.splits)
qed

lemma execute_trades_within_limit:
  "0 \<le> max_trades (risk_manager tr) \<Longrightarrow> within_limit (risk_manager tr) \<Longrightarrow>
   within_limit (risk_manager (execute_trades cs tr)) \<and>
   max_trades (risk_manager (execute_trades cs tr)) = max_trades (risk_manager tr)"
proof (induction cs arbitrary: tr)
  case Nil
  then show ?case by simp
next
  case (Cons c cs)
  obtain ex smb side qty strategy where c: "c = (ex, smb, side, qty, strategy)"
    by (cases c) auto
  let ?t = "snd (execute_trade ex smb side qty strategy tr)"
  from execute_trade_within_limit [OF Cons.prems, of ex smb side qty strategy]
  have a: "within_limit (risk_manager ?t)"
    and b: "max_trades (risk_manager ?t) = max_trades (risk_manager tr)" by simp_all
  from Cons.prems b have "0 \<le> max_trades (risk_manager ?t)" by simp
  from Cons.IH [OF this a] b show ?case by (simp add: c)
qed

text \<open>
  C5. From a state within the limit (the initial one is, for a limit that is not negative),
  after every sequence of \<open>execute_trade\<close> invocations the counter does not exceed
  \<open>max_trades\<close>, also right after \<open>can_trade\<close> has considered the next trade; and each
  operation on the counter keeps it within the limit: \<open>execute_trade\<close>, \<open>can_trade\<close>, and
  \<open>update_trade_count\<close> where \<open>execute_trade\<close> calls it, after \<open>can_trade\<close> allowed the trade.
\<close>

theorem trades_today_never_exceeds_limit:
  assumes "0 \<le> max_trades (risk_manager tr)" and "within_limit (risk_manager tr)"
  shows "trades_today (risk_manager (execute_trades cs tr))
           \<le> max_trades (risk_manager (execute_trades cs tr)) \<and>
         trades_today (snd (can_trade d (risk_manager (execute_trades cs tr))))
           \<le> max_trades (snd (can_trade d (risk_manager (execute_trades cs tr)))) \<and>
         within_limit (risk_manager (snd (execute_trade ex smb side qty strategy tr))) \<and>
         within_limit (snd (can_trade d (risk_manager tr))) \<and>
         (fst (can_trade d (risk_manager tr)) \<longrightarrow>
            within_limit (update_trade_count (snd (can_trade d (risk_manager tr)))))"
proof -
  let ?t = "execute_trades cs tr"
  from execute_trades_within_limit [OF assms, of cs]
  have a: "within_limit (risk_manager ?t)"
    and b: "0 \<le> max_trades (risk_manager ?t)" using assms(1) by simp_all
  from can_trade_within_limit [OF b a, of d]
  have c: "within_limit (snd (can_trade d (risk_manager ?t)))" .
  have e: "within_limit (snd (can_trade d (risk_manager tr)))"
    using assms by (rule can_trade_within_limit)
  have f: "fst (can_trade d (risk_manager tr)) \<Longrightarrow>
      within_limit (update_trade_count (snd (can_trade d (risk_manager tr))))"
    using e can_trade_then_update [of d "risk_manager tr"]
    by (simp add: within_limit_def update_trade_count_def)
  from a c e f execute_trade_within_limit [OF assms, of ex smb side qty strategy]
  show ?thesis by (simp add: within_limit_def)
qed

lemmas exec_defs = execute_trade_def execute_trade_try_def can_trade_def log_signal_def
  log_trade_execution_def update_trade_count_def log_trade_def pnl_cell_def Let_def
  RiskManager_init_def TradeLogger_init_def ensure_log_file_exists_def

lemma example_run:
  "risk_manager (execute_trades [example_call, example_call, example_call] example_trader) =
     \<lparr>max_trades = 2, stop_loss = 2, take_profit = 3, trades_today = 2,
      last_trade_date = Some 10\<rparr>"
  by (simp add: example_call_def example_trader_def example_exchange_def exec_defs)

theorem trades_today_never_exceeds_limit_witness:
  "0 \<le> max_trades (risk_manager example_trader) \<and>
   within_limit (risk_manager example_trader) \<and>
   trades_today (risk_manager
       (execute_trades [example_call, example_call, example_call] example_trader)) = 2 \<and>
   max_trades (risk_manager
       (execute_trades [example_call, example_call, example_call] example_trader)) = 2 \<and>
   fst (can_trade 10 (risk_manager example_trader)) \<and>
   within_limit (update_trade_count (snd (can_trade 10 (risk_manager example_trader))))"
  using trades_today_never_exceeds_limit
    [of example_trader "[example_call, example_call, example_call]" 10
        example_exchange "''BTCUSDT''" "''BUY''" 1 "''RSI_MACD''"]
  by (simp add: example_run)
     (simp add: example_trader_def within_limit_def exec_defs)

text \<open>
  C6, as amended. The counter is measured from where \<open>can_trade\<close>'s lazy daily reset
  leaves it: the counter before the call when the stored date is today, 0 otherwise. A
  declined attempt and a failed order submission return None with the counter at that
  value, a failed price fetch leaves it there as well, and a submitted order is returned
  with the counter at that value plus exactly 1.
\<close>

theorem execute_trade_counter:
  "(\<not> fst (can_trade (today ex) (risk_manager tr)) \<longrightarrow>
      fst (execute_trade ex smb side qty strategy tr) = Inr None \<and>
      risk_manager (snd (execute_trade ex smb side qty strategy tr)) =
        lazy_daily_reset (today ex) (risk_manager tr)) \<and>
   (fst (can_trade (today ex) (risk_manager tr)) \<and> ticker ex = Inl e \<longrightarrow>
      fst (execute_trade ex smb side qty strategy tr) = Inl UnboundLocalError \<and>
      risk_manager (snd (execute_trade ex smb side qty strategy tr)) =
        lazy_daily_reset (today ex) (risk_manager tr)) \<and>
   (fst (can_trade (today ex) (risk_manager tr)) \<and> ticker ex = Inr p \<and>
    create_order ex = Inl e \<longrightarrow>
      fst (execute_trade ex smb side qty strategy tr) = Inr None \<and>
      risk_manager (snd (execute_trade ex smb side qty strategy tr)) =
        lazy_daily_reset (today ex) (risk_manager tr)) \<and>
   (fst (can_trade (today ex) (risk_manager tr)) \<and> ticker ex = Inr p \<and>
    create_order ex = Inr od \<longrightarrow>
      fst (execute_trade ex smb side qty strategy tr) = Inr (Some od) \<and>
      trades_today (risk_manager (snd (execute_trade ex smb side qty strategy tr))) =
        trades_today (lazy_daily_reset (today ex) (risk_manager tr)) + 1) \<and>
   (last_trade_date (risk_manager tr) = Some (today ex) \<longrightarrow>
      lazy_daily_reset (today ex) (risk_manager tr) = risk_manager tr) \<and>
   (\<not> fst (can_trade (today ex) (risk_manager tr)) \<and> 0 < max_trades (risk_manager tr) \<longrightarrow>
      lazy_daily_reset (today ex) (risk_manager tr) = risk_manager tr) \<and>
   trades_today (lazy_daily_reset (today ex) (risk_manager tr)) =
     (if last_trade_date (risk_manager tr) = Some (today ex)
      then trades_today (risk_manager tr) else 0)"
proof (cases "can_trade (today ex) (risk_manager tr)")
  case (Pair ok rm)
  then have rm: "rm = lazy_daily_reset (today ex) (risk_manager tr)"
    using can_trade_snd [of "today ex" "risk_manager tr"] by simp
  have 1: "\<not> ok \<Longrightarrow> execute_trade ex smb side qty strategy tr =
      (Inr None, log_signal ''HOLD'' ''Daily trade limit reached'' (tr\<lparr>risk_manager := rm\<rparr>))"
    by (simp add: execute_trade_def execute_trade_try_def Pair)
  have 2: "ok \<Longrightarrow> ticker ex = Inl e \<Longrightarrow> execute_trade ex smb side qty strategy tr =
      (Inl UnboundLocalError, tr\<lparr>risk_manager := rm\<rparr>)"
    by (simp add: execute_trade_def execute_trade_try_def Pair)
  have 3: "ok \<Longrightarrow> ticker ex = Inr p \<Longrightarrow> create_order ex = Inl e \<Longrightarrow>
      fst (execute_trade ex smb side qty strategy tr) = Inr None \<and>
      risk_manager (snd (execute_trade ex smb side qty strategy tr)) = rm"
    by (simp add: execute_trade_def execute_trade_try_def Pair log_trade_execution_def)
  have 4: "ok \<Longrightarrow> ticker ex = Inr p \<Longrightarrow> create_order ex = Inr od \<Longrightarrow>
      fst (execute_trade ex smb side qty strategy tr) = Inr (Some od) \<and>
      trades_today (risk_manager (snd (execute_trade ex smb side qty strategy tr))) =
        trades_today rm + 1"
    by (simp add: execute_trade_def execute_trade_try_def Pair log_trade_execution_def
        update_trade_count_def Let_def)
  have 5: "last_trade_date (risk_manager tr) = Some (today ex) \<Longrightarrow>
      lazy_daily_reset (today ex) (risk_manager tr) = risk_manager tr"
    by (simp add: lazy_daily_reset_def)
  have 6: "\<not> ok \<Longrightarrow> 0 < max_trades (risk_manager tr) \<Longrightarrow>
      lazy_daily_reset (today ex) (risk_manager tr) = risk_manager tr"
    using Pair by (auto simp: can_trade_def lazy_daily_reset_def Let_def split: if_splits)
  have 7: "trades_today (lazy_daily_reset (today ex) (risk_manager tr)) =
      (if last_trade_date (risk_manager tr) = Some (today ex)
       then trades_today (risk_manager tr) else 0)"
    by (simp add: lazy_daily_reset_def)
  have 8: "(\<not> ok \<longrightarrow>
        fst (execute_trade ex smb side qty strategy tr) = Inr None \<and>
        risk_manager (snd (execute_trade ex smb side qty strategy tr)) = rm) \<and>
      (ok \<and> ticker ex = Inl e \<longrightarrow>
        fst (execute_trade ex smb side qty strategy tr) = Inl UnboundLocalError \<and>
        risk_manager (snd (execute_trade ex smb side qty strategy tr)) = rm)"
    using 1 2 by (simp add: log_signal_def)
  from 3 4 5 6 8 have "(\<not> ok \<longrightarrow>
        fst (execute_trade ex smb side qty strategy tr) = Inr None \<and>
        risk_manager (snd (execute_trade ex smb side qty strategy tr)) =
          lazy_daily_reset (today ex) (risk_manager tr)) \<and>
      (ok \<and> ticker ex = Inl e \<longrightarrow>
        fst (execute_trade ex smb side qty strategy tr) = Inl UnboundLocalError \<and>
        risk_manager (snd (execute_trade ex smb side qty strategy tr)) =
          lazy_daily_reset (today ex) (risk_manager tr)) \<and>
      (ok \<and> ticker ex = Inr p \<and> create_order ex = Inl e \<longrightarrow>
        fst (execute_trade ex smb side qty strategy tr) = Inr None \<and>
        risk_manager (snd (execute_trade ex smb side qty strategy tr)) =
          lazy_daily_reset (today ex) (risk_manager tr)) \<and>
      (ok \<and> ticker ex = Inr p \<and> create_order ex = Inr od \<longrightarrow>
        fst (execute_trade ex smb side qty strategy tr) = Inr (Some od) \<and>
        trades_today (risk_manager (snd (execute_trade ex smb side qty strategy tr))) =
          trades_today (lazy_daily_reset (today ex) (risk_manager tr)) + 1) \<and>
      (last_trade_date (risk_manager tr) = Some (today ex) \<longrightarrow>
        lazy_daily_reset (today ex) (risk_manager tr) = risk_manager tr) \<and>
      (\<not> ok \<and> 0 < max_trades (risk_manager tr) \<longrightarrow>
        lazy_daily_reset (today ex) (risk_manager tr) = risk_manager tr)"
    by (simp add: rm [symmetric])
  with 7 show ?thesis by (simp only: Pair fst_conv simp_thms)
qed

text \<open>
  C6, as stated, fails across a day boundary. After two trades on day 10 the counter is 2;
  on day 11 an attempt whose order submission raises returns None and leaves the counter
  at 0, not at 2, and an attempt whose order is accepted leaves it at 1, not at 3.
\<close>

theorem counter_changes_across_day_boundary:
  "trades_today (risk_manager (execute_trades [example_call, example_call] example_trader))
     = 2 \<and>
   create_order next_day_failing_exchange = Inl ClientError \<and>
   fst (execute_trade next_day_failing_exchange ''BTCUSDT'' ''BUY'' 1 ''RSI_MACD''
          (execute_trades [example_call, example_call] example_trader)) = Inr None \<and>
   trades_today (risk_manager (snd
       (execute_trade next_day_failing_exchange ''BTCUSDT'' ''BUY'' 1 ''RSI_MACD''
          (execute_trades [example_call, example_call] example_trader)))) = 0 \<and>
   fst (execute_trade next_day_exchange ''BTCUSDT'' ''BUY'' 1 ''RSI_MACD''
          (execute_trades [example_call, example_call] example_trader))
     = Inr (Some (Order 3)) \<and>
   trades_today (risk_manager (snd
       (execute_trade next_day_exchange ''BTCUSDT'' ''BUY'' 1 ''RSI_MACD''
          (execute_trades [example_call, example_call] example_trader)))) = 1"
  by (simp add: example_call_def example_trader_def example_exchange_def
      next_day_exchange_def next_day_failing_exchange_def exec_defs)

theorem execute_trade_counter_witness:
  "fst (can_trade (today example_exchange) (risk_manager example_trader)) \<and>
   ticker example_exchange = Inr 50000 \<and> create_order example_exchange = Inr (Order 1) \<and>
   fst (execute_trade example_exchange ''BTCUSDT'' ''BUY'' 1 ''RSI_MACD'' example_trader)
     = Inr (Some (Order 1)) \<and>
   trades_today (risk_manager
      (snd (execute_trade example_exchange ''BTCUSDT'' ''BUY'' 1 ''RSI_MACD'' example_trader)))
     = 0 + 1 \<and>
   create_order failing_order_exchange = Inl ClientError \<and>
   fst (execute_trade failing_order_exchange ''BTCUSDT'' ''BUY'' 1 ''RSI_MACD'' example_trader)
     = Inr None \<and>
   trades_today (risk_manager
      (snd (execute_trade failing_order_exchange ''BTCUSDT'' ''BUY'' 1 ''RSI_MACD''
             example_trader)))
     = 0"
  using execute_trade_counter
          [of example_exchange example_trader "''BTCUSDT''" "''BUY''" 1 "''RSI_MACD''"
              ClientError 50000 "Order 1"]
        execute_trade_counter
          [of failing_order_exchange example_trader "''BTCUSDT''" "''BUY''" 1 "''RSI_MACD''"
              ClientError 50000 "Order 1"]
  by (simp add: example_trader_def example_exchange_def failing_order_exchange_def
      can_trade_def lazy_daily_reset_def RiskManager_init_def Let_def)

text \<open>
  C9. When the trade is allowed and the price fetch raises, \<open>current_price\<close> is unbound in
  the handler: \<open>execute_trade\<close> raises \<open>UnboundLocalError\<close> and logs nothing, no FAILED
  line either. When the price fetch succeeded and the order submission raises, the handler
  logs FAILED and returns None. \<open>execute_trade\<close> raises in the first case only.
\<close>

theorem execute_trade_unbound_current_price:
  "(fst (can_trade (today ex) (risk_manager tr)) \<and> ticker ex = Inl e \<longrightarrow>
      fst (execute_trade ex smb side qty strategy tr) = Inl UnboundLocalError \<and>
      log_out (snd (execute_trade ex smb side qty strategy tr)) = log_out tr) \<and>
   (fst (can_trade (today ex) (risk_manager tr)) \<and> ticker ex = Inr p \<and>
    create_order ex = Inl e \<longrightarrow>
      fst (execute_trade ex smb side qty strategy tr) = Inr None \<and>
      log_out (snd (execute_trade ex smb side qty strategy tr)) =
        log_out tr @ [Exec ''[PENDING]'' side qty (symbol tr) p,
                      Exec ''[FAILED]'' side qty (symbol tr) p,
                      Error ''Error executing trade'']) \<and>
   ((\<exists>x. fst (execute_trade ex smb side qty strategy tr) = Inl x) \<longleftrightarrow>
      fst (can_trade (today ex) (risk_manager tr)) \<and> isl (ticker ex))"
proof (cases "can_trade (today ex) (risk_manager tr)")
  case (Pair ok rm)
  have 1: "ok \<Longrightarrow> ticker ex = Inl e \<Longrightarrow> execute_trade ex smb side qty strategy tr =
      (Inl UnboundLocalError, tr\<lparr>risk_manager := rm\<rparr>)"
    by (simp add: execute_trade_def execute_trade_try_def Pair)
  have 2: "ok \<Longrightarrow> ticker ex = Inr p \<Longrightarrow> create_order ex = Inl e \<Longrightarrow>
      fst (execute_trade ex smb side qty strategy tr) = Inr None \<and>
      log_out (snd (execute_trade ex smb side qty strategy tr)) =
        log_out tr @ [Exec ''[PENDING]'' side qty (symbol tr) p,
                      Exec ''[FAILED]'' side qty (symbol tr) p,
                      Error ''Error executing trade'']"
    by (simp add: execute_trade_def execute_trade_try_def Pair log_trade_execution_def)
  have 3: "(\<exists>x. fst (execute_trade ex smb side qty strategy tr) = Inl x) \<longleftrightarrow>
      ok \<and> isl (ticker ex)"
    by (auto simp: execute_trade_def execute_trade_try_def Pair Let_def split: sum.splits)
  from 1 2 3 show ?thesis by (simp add: Pair)
qed

theorem execute_trade_unbound_current_price_witness:
  "fst (can_trade (today failing_ticker_exchange) (risk_manager example_trader)) \<and>
   ticker failing_ticker_exchange = Inl ClientError \<and>
   fst (execute_trade failing_ticker_exchange ''BTCUSDT'' ''BUY'' 1 ''RSI_MACD'' example_trader)
     = Inl UnboundLocalError \<and>
   log_out (snd (execute_trade failing_ticker_exchange ''BTCUSDT'' ''BUY'' 1 ''RSI_MACD''
                  example_trader)) = [] \<and>
   ticker failing_order_exchange = Inr 50000 \<and>
   create_order failing_order_exchange = Inl ClientError \<and>
   log_out (snd (execute_trade failing_order_exchange ''BTCUSDT'' ''BUY'' 1 ''RSI_MACD''
                  example_trader)) =
     [Exec ''[PENDING]'' ''BUY'' 1 ''BTCUSDT'' 50000,
      Exec ''[FAILED]'' ''BUY'' 1 ''BTCUSDT'' 50000,
      Error ''Error executing trade'']"
  using execute_trade_unbound_current_price
          [of failing_ticker_exchange example_trader ClientError "''BTCUSDT''" "''BUY''" 1
              "''RSI_MACD''" 50000]
        execute_trade_unbound_current_price
          [of failing_order_exchange example_trader ClientError "''BTCUSDT''" "''BUY''" 1
              "''RSI_MACD''" 50000]
  by (simp add: example_trader_def failing_ticker_exchange_def failing_order_exchange_def
      can_trade_def RiskManager_init_def Let_def)

text \<open>
  C3. The header written by \<open>ensure_log_file_exists\<close> names the sixth column pnl and the
  seventh strategy, while \<open>log_trade\<close> writes strategy sixth and pnl seventh: a trade
  written with strategy BB\_SQUEEZE and no pnl is read back with pnl BB\_SQUEEZE and an
  empty strategy.
\<close>

theorem journal_strategy_read_back_as_pnl:
  "get_trade_history 7 1000
     (log_trade 1000 ''BTCUSDT'' ''BUY'' 0.001 50000 ''BB_SQUEEZE'' None
        (TradeLogger_init None)) =
   Some [[(''timestamp'', CTime 1000), (''symbol'', CStr ''BTCUSDT''),
          (''side'', CStr ''BUY''), (''quantity'', CNum 0.001), (''price'', CNum 50000),
          (''pnl'', CStr ''BB_SQUEEZE''), (''strategy'', CEmpty)]]"
  by (simp add: get_trade_history_def read_csv_def has_timestamp_column_def
      timestamp_cell_def log_trade_def TradeLogger_init_def ensure_log_file_exists_def
      pnl_cell_def)

section \<open>Properties of main and run\_strategy\<close>






lemma iloc_short: "length df < 2 \<Longrightarrow> iloc df (- 2) = Inl IndexError"
  by (simp add: iloc_def Let_def)

text \<open>
  C10. On a data frame with fewer than two rows the access \<open>df.iloc[-2]\<close> raises
  \<open>IndexError\<close>, the \<open>try\<close> block of \<open>run_strategy\<close> ends with that error before any block
  runs, and the handler swallows it: the cycle logs two error lines and no signal, and
  changes nothing else.
\<close>

theorem run_strategy_short_series:
  assumes "length df < 2"
  shows "iloc df (- 2) = Inl IndexError \<and>
         run_strategy_try ex1 ex2 (Some df) tr = (Inl IndexError, tr) \<and>
         run_strategy_df ex1 ex2 (Some df) tr =
           tr\<lparr>log_out := log_out tr @ [Error ''Error in strategy execution'',
                                       Error ''Error details'']\<rparr>"
proof -
  have a: "iloc df (- 2) = Inl IndexError" using assms by (rule iloc_short)
  have b: "run_strategy_try ex1 ex2 (Some df) tr = (Inl IndexError, tr)"
  proof (cases "iloc df (- 1)")
    case (Inl e)
    then have "e = IndexError" by (auto simp: iloc_def Let_def split: if_splits)
    with Inl show ?thesis by (simp add: run_strategy_try_def)
  next
    case (Inr current)
    with a show ?thesis by (simp add: run_strategy_try_def)
  qed
  from a b show ?thesis by (simp add: run_strategy_df_def)
qed

theorem run_strategy_short_series_witness:
  "length [breakout_row] < 2 \<and>
   iloc [breakout_row] (- 2) = Inl IndexError \<and>
   log_out (run_strategy_df example_exchange example_exchange (Some [breakout_row])
              example_trader) =
     [Error ''Error in strategy execution'', Error ''Error details'']"
  using run_strategy_short_series
          [of "[breakout_row]" example_exchange example_exchange example_trader]
  by (simp add: example_trader_def)

section \<open>Properties of the strategy rules\<close>




lemma log_signal_fields [simp]:
  "risk_manager (log_signal s reason tr) = risk_manager tr"
  "symbol (log_signal s reason tr) = symbol tr"
  "quantity (log_signal s reason tr) = quantity tr"
  "adx_threshold (log_signal s reason tr) = adx_threshold tr"
  by (simp_all add: log_signal_def)







lemma iloc_last_two:
  assumes "2 \<le> length df"
  shows "iloc df (- 1) = Inr (last df)" and "iloc df (- 2) = Inr (df ! (length df - 2))"
proof -
  from assms have ne: "df \<noteq> []" by auto
  from assms have "nat (int (length df) + - 1) = length df - 1" by simp
  with assms ne show "iloc df (- 1) = Inr (last df)"
    by (simp add: iloc_def last_conv_nth)
  from assms have "nat (int (length df) + - 2) = length df - 2" by simp
  with assms show "iloc df (- 2) = Inr (df ! (length df - 2))"
    by (simp add: iloc_def)
qed








section \<open>Properties of the indicator pipeline\<close>

lemma length_fins: "length (fins xs) \<le> length xs"
  by (induction xs rule: fins.induct) auto

lemma length_rolling [simp]: "length (rolling w agg xs) = length xs"
  by (simp add: rolling_def)

lemma rolling_short:
  assumes "length xs < w"
  shows "rolling w agg xs = replicate (length xs) NaN"
proof -
  have "\<And>i. i < length xs \<Longrightarrow>
      length (fins (drop (i + 1 - w) (take (i + 1) xs))) < w"
  proof -
    fix i assume "i < length xs"
    have "length (fins (drop (i + 1 - w) (take (i + 1) xs)))
        \<le> length (drop (i + 1 - w) (take (i + 1) xs))" by (rule length_fins)
    also have "\<dots> \<le> length xs" by simp
    finally show "length (fins (drop (i + 1 - w) (take (i + 1) xs))) < w"
      using assms by simp
  qed
  then have "map (\<lambda>i. let win = drop (i + 1 - w) (take (i + 1) xs)
               in if length (fins win) < w then NaN else agg (fins win)) [0..<length xs]
      = map (\<lambda>i. NaN) [0..<length xs]"
    by (intro map_cong) (simp_all add: Let_def)
  then show ?thesis by (simp add: rolling_def map_replicate_const)
qed

lemma length_pct_change [simp]: "length (pct_change xs) = length xs"
  by (cases xs) (simp_all add: pct_change_def)

lemma length_shift [simp]: "length (shift xs) = length xs"
  by (cases xs) (simp_all add: shift_def)

lemma volatility_short:
  "length df < w \<Longrightarrow> calculate_volatility df w = replicate (length df) NaN"
  by (simp add: calculate_volatility_def Let_def rolling_short)

lemma bollinger_short:
  "length df < w \<Longrightarrow>
   calculate_bollinger_bands df w k =
     (replicate (length df) NaN, replicate (length df) NaN, replicate (length df) NaN)"
  by (simp add: calculate_bollinger_bands_def Let_def rolling_short zip_replicate)

lemma keltner_short:
  "length df < w \<Longrightarrow>
   calculate_keltner_channels df w k =
     (replicate (length df) NaN, replicate (length df) NaN, replicate (length df) NaN)"
  by (simp add: calculate_keltner_channels_def Let_def rolling_short zip_replicate)

lemma col_at_replicate [simp]: "col_at (replicate n NaN) i = NaN"
  by (simp add: col_at_def)

lemma klines_short:
  assumes "klines mk = Inr raw"
    and "length (clean_data raw) < 20"
    and "length (clean_data raw) < bb_window tr"
    and "length (clean_data raw) < keltner_window tr"
  shows "get_historical_klines mk tr =
     (Some (map (\<lambda>i.
        \<lparr>r_close = k_close (clean_data raw ! i), volatility = NaN,
         upper_bb = NaN, middle_bb = NaN, lower_bb = NaN,
         upper_kc = NaN, middle_kc = NaN, lower_kc = NaN,
         adx = col_at (ta_adx mk) i, rsi = col_at (ta_rsi mk) i,
         macd = col_at (ta_macd mk) i, signal = col_at (ta_signal mk) i,
         squeeze = False\<rparr>) [0..<length (clean_data raw)]), tr)"
  using assms
  by (simp add: get_historical_klines_def Let_def volatility_short bollinger_short
      keltner_short)

lemma iloc_last_two_mem:
  assumes "2 \<le> length df"
  shows "last df \<in> set df" and "df ! (length df - 2) \<in> set df"
  using assms by (auto intro: last_in_set nth_mem)

lemma hold_on_undefined:
  assumes "2 \<le> length df"
    and "\<forall>r\<in>set df. volatility r = NaN \<and> \<not> squeeze r"
  shows "run_strategy_df ex1 ex2 (Some df) tr =
           tr\<lparr>log_out := log_out tr @ [Signal ''HOLD'' ''No clear signals'']\<rparr>"
proof -
  from assms iloc_last_two_mem [OF assms(1)]
  have v: "volatility (last df) = NaN" and q: "\<not> squeeze (df ! (length df - 2))"
    by blast+
  have s: "squeeze_block ex1 (df ! (length df - 2)) (last df) tr = (Inr (), tr)"
    using q by (simp add: squeeze_block_def Let_def)
  have m: "momentum_block ex2 df (last df) tr =
      (Inr (), log_signal ''HOLD'' ''No clear signals'' tr)"
    using v by (simp add: momentum_block_def)
  show ?thesis
    by (simp add: run_strategy_df_def run_strategy_try_def iloc_last_two [OF assms(1)] s m
        log_signal_def)
qed

text \<open>
  C2, as amended. When the cleaned series has fewer rows than the volatility window (20),
  the Bollinger window and the Keltner window, \<open>get_historical_klines\<close> does not fail and
  every row has NaN for the volatility and for the Bollinger and Keltner bands and a
  squeeze flag that is False; with at least two rows \<open>run_strategy\<close> then attempts no trade
  and logs HOLD with the reason No clear signals, whatever TA-Lib returned.
\<close>

theorem short_series_holds:
  assumes "klines mk = Inr raw"
    and "length (clean_data raw) < 20"
    and "length (clean_data raw) < bb_window tr"
    and "length (clean_data raw) < keltner_window tr"
  shows "(\<exists>rows. get_historical_klines mk tr = (Some rows, tr) \<and>
            length rows = length (clean_data raw) \<and>
            (\<forall>r\<in>set rows.
               volatility r = NaN \<and> upper_bb r = NaN \<and> middle_bb r = NaN \<and>
               lower_bb r = NaN \<and> upper_kc r = NaN \<and> middle_kc r = NaN \<and>
               lower_kc r = NaN \<and> \<not> squeeze r)) \<and>
         (2 \<le> length (clean_data raw) \<longrightarrow>
            run_strategy mk ex1 ex2 tr =
              tr\<lparr>log_out := log_out tr @ [Signal ''HOLD'' ''No clear signals'']\<rparr>)"
proof -
  let ?rows = "map (\<lambda>i.
        \<lparr>r_close = k_close (clean_data raw ! i), volatility = NaN,
         upper_bb = NaN, middle_bb = NaN, lower_bb = NaN,
         upper_kc = NaN, middle_kc = NaN, lower_kc = NaN,
         adx = col_at (ta_adx mk) i, rsi = col_at (ta_rsi mk) i,
         macd = col_at (ta_macd mk) i, signal = col_at (ta_signal mk) i,
         squeeze = False\<rparr>) [0..<length (clean_data raw)]"
  have k: "get_historical_klines mk tr = (Some ?rows, tr)"
    using assms by (rule klines_short)
  have l: "length ?rows = length (clean_data raw)" by simp
  have u: "\<forall>r\<in>set ?rows.
               volatility r = NaN \<and> upper_bb r = NaN \<and> middle_bb r = NaN \<and>
               lower_bb r = NaN \<and> upper_kc r = NaN \<and> middle_kc r = NaN \<and>
               lower_kc r = NaN \<and> \<not> squeeze r"
    by auto
  have h: "2 \<le> length (clean_data raw) \<Longrightarrow>
      run_strategy mk ex1 ex2 tr =
        tr\<lparr>log_out := log_out tr @ [Signal ''HOLD'' ''No clear signals'']\<rparr>"
  proof -
    assume "2 \<le> length (clean_data raw)"
    then have "2 \<le> length ?rows" by simp
    moreover from u have "\<forall>r\<in>set ?rows. volatility r = NaN \<and> \<not> squeeze r" by blast
    ultimately have "run_strategy_df ex1 ex2 (Some ?rows) tr =
        tr\<lparr>log_out := log_out tr @ [Signal ''HOLD'' ''No clear signals'']\<rparr>"
      by (rule hold_on_undefined)
    then show ?thesis by (simp add: run_strategy_def k)
  qed
  from k l u h show ?thesis by blast
qed

lemma short_market_clean:
  "clean_data [example_candle 100, example_candle 101, example_candle 102] =
     [example_candle 100, example_candle 101, example_candle 102]"
  by (simp add: clean_data_def has_nan_def example_candle_def)

lemma short_market_run:
  "run_strategy short_market example_exchange example_exchange example_trader =
     example_trader\<lparr>log_out := [Signal ''HOLD'' ''No clear signals'']\<rparr>"
proof -
  let ?raw = "[example_candle 100, example_candle 101, example_candle 102]"
  have k: "get_historical_klines short_market example_trader = 
      (Some (map (\<lambda>i.
        \<lparr>r_close = k_close (clean_data ?raw ! i), volatility = NaN,
         upper_bb = NaN, middle_bb = NaN, lower_bb = NaN,
         upper_kc = NaN, middle_kc = NaN, lower_kc = NaN,
         adx = col_at (ta_adx short_market) i, rsi = col_at (ta_rsi short_market) i,
         macd = col_at (ta_macd short_market) i, signal = col_at (ta_signal short_market) i,
         squeeze = False\<rparr>) [0..<length (clean_data ?raw)]), example_trader)"
    by (rule klines_short)
       (simp_all add: short_market_def short_market_clean example_trader_def)
  show ?thesis
    unfolding run_strategy_def k prod.case
    by (subst hold_on_undefined) (auto simp: short_market_clean example_trader_def)
qed

text \<open>
  C2, as stated, fails: the code has no insufficient-data reason. On three candles the
  cycle logs HOLD with the reason No clear signals.
\<close>

theorem short_series_reason_is_no_clear_signals:
  "length (clean_data [example_candle 100, example_candle 101, example_candle 102]) < 20 \<and>
   klines short_market = Inr [example_candle 100, example_candle 101, example_candle 102] \<and>
   log_out (run_strategy short_market example_exchange example_exchange example_trader) =
     [Signal ''HOLD'' ''No clear signals''] \<and>
   Signal ''HOLD'' ''insufficient data''
     \<notin> set (log_out (run_strategy short_market example_exchange example_exchange
                       example_trader))"
  by (simp add: short_market_run short_market_clean) (simp add: short_market_def)

theorem short_series_holds_witness:
  "klines short_market = Inr [example_candle 100, example_candle 101, example_candle 102] \<and>
   length (clean_data [example_candle 100, example_candle 101, example_candle 102]) = 3 \<and>
   3 < bb_window example_trader \<and> 3 < keltner_window example_trader \<and>
   fst (get_historical_klines short_market example_trader) \<noteq> None \<and>
   run_strategy short_market example_exchange example_exchange example_trader =
     example_trader\<lparr>log_out := log_out example_trader @
                                  [Signal ''HOLD'' ''No clear signals'']\<rparr>"
  using short_series_holds
          [of short_market "[example_candle 100, example_candle 101, example_candle 102]"
              example_trader example_exchange example_exchange]
  by (simp add: short_market_clean) (auto simp: short_market_def example_trader_def)

end
